theory Spec2Isabelle
  imports Complex_Main
begin

section \<open>PomoBot: the staged interval timer of bot/Timer/Timer.py\<close>

text \<open>
  The module defines four classes: \<open>Timer\<close>, \<open>TimerStage\<close>, \<open>TimerChannel\<close> and
  \<open>TimerSubscriber\<close>, and the enum \<open>TimerState\<close>. Each method is embedded as a function
  that takes the object (a record) and returns an outcome together with the object as the
  method left it, so that the mutations made before an exception stay visible.
  Every read of \<open>time.time()\<close> is an explicit argument. Calls into discord are answered
  by an environment and recorded in a trace.
\<close>

subsection \<open>Exceptions and Python primitives\<close>

datatype error =
    AttributeError
  | IndexError
  | TypeError
  | ValueError
  | ZeroDivisionError
  | OverflowError
  | Forbidden
  | HTTPException

text \<open>\<open>xs[i]\<close> on a Python list: negative indices count from the end.\<close>

definition py_index :: "'a list \<Rightarrow> int \<Rightarrow> error + 'a" where
  "py_index xs i =
     (let n = int (length xs) in
      if 0 \<le> i \<and> i < n then Inr (xs ! nat i)
      else if - n \<le> i \<and> i < 0 then Inr (xs ! nat (n + i))
      else Inl IndexError)"

text \<open>
  Strings are UTF-8 byte lists. Python's \<open>len\<close> counts code points, that is the bytes
  that are not continuation bytes (\<open>0x80 .. 0xBF\<close>).
\<close>

definition is_continuation :: "char \<Rightarrow> bool" where
  "is_continuation c = (128 \<le> (of_char c :: nat) \<and> (of_char c :: nat) < 192)"

definition py_len :: "string \<Rightarrow> nat" where
  "py_len s = length (filter (\<lambda>c. \<not> is_continuation c) s)"

definition NL :: string where
  "NL = [CHR 0x0A]"

text \<open>\<open>sep.join(xs)\<close>.\<close>

fun join :: "string \<Rightarrow> string list \<Rightarrow> string" where
  "join sep [] = []"
| "join sep [x] = x"
| "join sep (x # y # ys) = x @ sep @ join sep (y # ys)"

text \<open>\<open>str(n)\<close> of an integer, in decimal.\<close>

definition digit_char :: "nat \<Rightarrow> char" where
  "digit_char d = ''0123456789'' ! d"

fun str_nat :: "nat \<Rightarrow> string" where
  "str_nat n = (if n < 10 then [digit_char n] else str_nat (n div 10) @ [digit_char (n mod 10)])"

declare str_nat.simps [simp del]

definition str_int :: "int \<Rightarrow> string" where
  "str_int i = (if i < 0 then CHR ''-'' # str_nat (nat (- i)) else str_nat (nat i))"

text \<open>The format specification \<open>{:02d}\<close>: zero padding to width two, the sign included.\<close>

definition fmt_02d :: "int \<Rightarrow> string" where
  "fmt_02d i =
     (if i < 0 then CHR ''-'' # str_nat (nat (- i))
      else if i < 10 then CHR ''0'' # str_nat (nat i)
      else str_nat (nat i))"

text \<open>The format specification \<open>{name:>w}\<close>: right alignment in width \<open>w\<close>.\<close>

definition fmt_right :: "nat \<Rightarrow> string \<Rightarrow> string" where
  "fmt_right w s = replicate (w - py_len s) CHR '' '' @ s"

subsection \<open>The data model\<close>

datatype TimerState = STOPPED | RUNNING | PAUSED

record TimerStage =
  stage_name :: string
  stage_duration :: int
  stage_message :: string
  stage_focus :: bool
  stage_modifiers :: "(string \<times> bool) list"

text \<open>The parts of \<open>discord.Member\<close> and of the role that the module reads.\<close>

record Member =
  member_id :: int
  member_name :: string
  member_guild_id :: int

record Role =
  role_id :: int
  role_mention :: string

text \<open>
  \<open>TimerSubscriber\<close>. The back references \<open>timer\<close>, \<open>interface\<close> and \<open>client\<close> are not
  stored; the one value read through them, \<open>self.timer.role.id\<close>, is the field
  \<open>sub_timer_role_id\<close>.
\<close>

record TimerSubscriber =
  sub_member :: Member
  sub_timer_role_id :: int
  sub_id :: int
  time_joined :: int
  last_updated :: int
  clocked_time :: int
  active :: bool
  last_seen :: int
  warnings :: int

subsection \<open>TimerSubscriber\<close>

text \<open>\<open>TimerSubscriber.__init__\<close>; \<open>now\<close> is \<open>int(time.time())\<close>.\<close>

definition TimerSubscriber_init :: "Member \<Rightarrow> int \<Rightarrow> int \<Rightarrow> TimerSubscriber" where
  "TimerSubscriber_init m rid now =
     \<lparr> sub_member = m, sub_timer_role_id = rid, sub_id = member_id m,
       time_joined = now, last_updated = now, clocked_time = 0, active = True,
       last_seen = now, warnings = 0 \<rparr>"

definition bump :: "int \<Rightarrow> TimerSubscriber \<Rightarrow> TimerSubscriber" where
  "bump now s = s\<lparr> last_seen := now, warnings := 0 \<rparr>"

definition touch :: "int \<Rightarrow> TimerSubscriber \<Rightarrow> TimerSubscriber" where
  "touch now s =
     s\<lparr> clocked_time := clocked_time s + (if active s then now - last_updated s else 0),
        last_updated := now \<rparr>"

definition session_data :: "int \<Rightarrow> TimerSubscriber \<Rightarrow> (int \<times> int \<times> int \<times> int \<times> int) \<times> TimerSubscriber" where
  "session_data now s =
     (let s' = touch now s in
      ((sub_id s', member_guild_id (sub_member s'), sub_timer_role_id s', time_joined s',
        clocked_time s'), s'))"

text \<open>
  The class declares \<open>__slots__\<close> and has no instance dictionary: reading or assigning an
  attribute whose name is not a slot raises \<open>AttributeError\<close>. \<open>getattr_int\<close> and
  \<open>setattr_int\<close> are \<open>self.a\<close> and \<open>self.a = v\<close> for the integer attributes that
  \<open>serialise\<close> and \<open>deserialise\<close> name. The five slots that hold no integer
  (\<open>member\<close>, \<open>timer\<close>, \<open>interface\<close>, \<open>client\<close>, \<open>active\<close>) are read through the record
  and never reach these two functions in the source; the last branch answers for them.
\<close>

definition TimerSubscriber_slots :: "string list" where
  "TimerSubscriber_slots =
     [''member'', ''timer'', ''interface'', ''client'', ''id'', ''time_joined'',
      ''last_updated'', ''clocked_time'', ''active'', ''last_seen'', ''warnings'']"

definition getattr_int :: "TimerSubscriber \<Rightarrow> string \<Rightarrow> error + int" where
  "getattr_int s a =
     (if a \<notin> set TimerSubscriber_slots then Inl AttributeError
      else if a = ''id'' then Inr (sub_id s)
      else if a = ''time_joined'' then Inr (time_joined s)
      else if a = ''last_updated'' then Inr (last_updated s)
      else if a = ''clocked_time'' then Inr (clocked_time s)
      else if a = ''last_seen'' then Inr (last_seen s)
      else if a = ''warnings'' then Inr (warnings s)
      else Inl TypeError)"

definition setattr_int :: "TimerSubscriber \<Rightarrow> string \<Rightarrow> int \<Rightarrow> error + TimerSubscriber" where
  "setattr_int s a v =
     (if a \<notin> set TimerSubscriber_slots then Inl AttributeError
      else if a = ''id'' then Inr (s\<lparr> sub_id := v \<rparr>)
      else if a = ''time_joined'' then Inr (s\<lparr> time_joined := v \<rparr>)
      else if a = ''last_updated'' then Inr (s\<lparr> last_updated := v \<rparr>)
      else if a = ''clocked_time'' then Inr (s\<lparr> clocked_time := v \<rparr>)
      else if a = ''last_seen'' then Inr (s\<lparr> last_seen := v \<rparr>)
      else if a = ''warnings'' then Inr (s\<lparr> warnings := v \<rparr>)
      else Inl TypeError)"

text \<open>Sequencing of two steps, the first of which may raise.\<close>

definition and_then :: "error + 'a \<Rightarrow> ('a \<Rightarrow> error + 'b) \<Rightarrow> error + 'b" where
  "and_then r f = (case r of Inl e \<Rightarrow> Inl e | Inr x \<Rightarrow> f x)"

text \<open>
  \<open>serialise\<close>: the tuple is a list of eight integers. Its elements are evaluated from
  left to right; the sixth is \<open>self.time_subbed\<close>.
\<close>

definition serialise :: "TimerSubscriber \<Rightarrow> error + int list" where
  "serialise s =
     and_then (getattr_int s ''id'') (\<lambda>v0.
     and_then (Inr (member_guild_id (sub_member s))) (\<lambda>v1.
     and_then (Inr (sub_timer_role_id s)) (\<lambda>v2.
     and_then (getattr_int s ''time_joined'') (\<lambda>v3.
     and_then (getattr_int s ''last_updated'') (\<lambda>v4.
     and_then (getattr_int s ''time_subbed'') (\<lambda>v5.
     and_then (getattr_int s ''last_seen'') (\<lambda>v6.
     and_then (getattr_int s ''warnings'') (\<lambda>v7.
     Inr [v0, v1, v2, v3, v4, v5, v6, v7]))))))))"

text \<open>
  \<open>deserialise\<close>: constructs a fresh subscriber (at clock reading \<open>now\<close>) and overwrites
  five attributes from \<open>data[3] .. data[7]\<close>; the third assignment is to
  \<open>self.time_subbed\<close>.
\<close>

definition deserialise :: "Member \<Rightarrow> int \<Rightarrow> int \<Rightarrow> int list \<Rightarrow> error + TimerSubscriber" where
  "deserialise m rid now data =
     (let self = TimerSubscriber_init m rid now in
      and_then (py_index data 3) (\<lambda>d3.
      and_then (setattr_int self ''time_joined'' d3) (\<lambda>s1.
      and_then (py_index data 4) (\<lambda>d4.
      and_then (setattr_int s1 ''last_updated'' d4) (\<lambda>s2.
      and_then (py_index data 5) (\<lambda>d5.
      and_then (setattr_int s2 ''time_subbed'' d5) (\<lambda>s3.
      and_then (py_index data 6) (\<lambda>d6.
      and_then (setattr_int s3 ''last_seen'' d6) (\<lambda>s4.
      and_then (py_index data 7) (\<lambda>d7.
      setattr_int s4 ''warnings'' d7))))))))))"

subsection \<open>Calls into discord and asyncio\<close>

text \<open>
  Every awaited call on a discord object is an \<open>action\<close>. The environment answers it:
  \<open>Done h\<close> when the call returns (\<open>h\<close> is the handle of the message it produced, where
  there is one), \<open>Raised e\<close> when it raises. The actions a method attempts are returned as
  its trace, in order. \<open>EnsureFuture_runloop\<close> records
  \<open>asyncio.ensure_future(self.runloop())\<close>: a new task running the loop.
\<close>

type_synonym handle = nat

record Embed =
  embed_title :: string
  embed_description :: string
  embed_timestamp :: int

datatype action =
    Send nat string
  | SendEmbed nat Embed
  | AddReaction handle
  | EditMessage handle Embed
  | Pin handle
  | EditChannelName nat string
  | EnsureFuture_runloop

datatype response = Done handle | Raised error

type_synonym env = "action \<Rightarrow> response"

text \<open>
  A list comprehension whose element expression may raise: the first exception ends it.
\<close>

fun collect :: "('a \<Rightarrow> error + 'b) \<Rightarrow> 'a list \<Rightarrow> error + 'b list" where
  "collect f [] = Inr []"
| "collect f (x # xs) =
     (case f x of Inl e \<Rightarrow> Inl e
      | Inr y \<Rightarrow> (case collect f xs of Inl e \<Rightarrow> Inl e | Inr ys \<Rightarrow> Inr (y # ys)))"

subsection \<open>Timer\<close>

text \<open>
  \<open>channel\<close> and \<open>clock_channel\<close> are channel ids; \<open>subscribed\<close> is the dict from
  participant id to subscriber, in insertion order.
\<close>

record Timer =
  channel :: nat
  clock_channel :: "nat option"
  role :: Role
  timer_name :: string
  start_time :: "int option"
  current_stage_start :: "int option"
  remaining :: "int option"
  state :: TimerState
  stages :: "TimerStage list option"
  current_stage :: int
  subscribed :: "(int \<times> TimerSubscriber) list"
  last_clockupdate :: int

definition clock_period :: int where
  "clock_period = 5"

text \<open>
  \<open>Timer.setup\<close>. The two reads of the clock are \<open>now1\<close> and \<open>now2\<close>. The first four
  assignments come before \<open>stages[0]\<close> is evaluated, which raises \<open>TypeError\<close> on
  \<open>None\<close> and \<open>IndexError\<close> on the empty list.
\<close>

definition Timer_setup :: "int \<Rightarrow> int \<Rightarrow> TimerStage list option \<Rightarrow> Timer \<Rightarrow> (error + unit) \<times> Timer" where
  "Timer_setup now1 now2 stgs t =
     (let t1 = t\<lparr> state := STOPPED, stages := stgs, current_stage := 0,
                  start_time := Some now1 \<rparr> in
      case stgs of
        None \<Rightarrow> (Inl TypeError, t1)
      | Some ss \<Rightarrow>
          (case py_index ss 0 of
             Inl e \<Rightarrow> (Inl e, t1)
           | Inr s0 \<Rightarrow>
               (Inr (), t1\<lparr> remaining := Some (stage_duration s0),
                            current_stage_start := Some now2 \<rparr>)))"

text \<open>\<open>Timer.__init__\<close>; \<open>if stages:\<close> holds for a list that is neither \<open>None\<close> nor empty.\<close>

definition Timer_init ::
  "string \<Rightarrow> Role \<Rightarrow> nat \<Rightarrow> nat option \<Rightarrow> TimerStage list option \<Rightarrow> int \<Rightarrow> int \<Rightarrow> (error + unit) \<times> Timer" where
  "Timer_init nm rl ch cch stgs now1 now2 =
     (let t = \<lparr> channel = ch, clock_channel = cch, role = rl, timer_name = nm,
                start_time = None, current_stage_start = None, remaining = None,
                state = STOPPED, stages = stgs, current_stage = 0, subscribed = [],
                last_clockupdate = 0 \<rparr> in
      if stgs \<noteq> None \<and> stgs \<noteq> Some [] then Timer_setup now1 now2 stgs t else (Inr (), t))"

text \<open>\<open>pretty_remaining\<close>; \<open>max(None, 0)\<close> raises \<open>TypeError\<close>.\<close>

definition pretty_remaining :: "Timer \<Rightarrow> error + string" where
  "pretty_remaining t =
     (case remaining t of
        None \<Rightarrow> Inl TypeError
      | Some r \<Rightarrow>
          (let diff = max r 0;
               hours = diff div 3600;
               minutes = (diff mod 3600) div 60;
               seconds = diff mod 60
           in Inr (fmt_02d hours @ '':'' @ fmt_02d minutes @ '':'' @ fmt_02d seconds)))"

text \<open>
  \<open>update_clock_channel\<close>. A failure of the edit is swallowed, so the environment's
  answer does not matter. No statement of the method assigns \<open>last_clockupdate\<close>.
\<close>

definition update_clock_channel :: "int \<Rightarrow> Timer \<Rightarrow> (error + unit) \<times> Timer \<times> action list" where
  "update_clock_channel now t =
     (case clock_channel t of
        None \<Rightarrow> (Inr (), t, [])
      | Some c \<Rightarrow>
          if now - last_clockupdate t < clock_period then (Inr (), t, [])
          else
            (case stages t of
               None \<Rightarrow> (Inl TypeError, t, [])
             | Some ss \<Rightarrow>
                 (case py_index ss (current_stage t) of
                    Inl e \<Rightarrow> (Inl e, t, [])
                  | Inr st \<Rightarrow>
                      (case pretty_remaining t of
                         Inl e \<Rightarrow> (Inl e, t, [])
                       | Inr remaining_time \<Rightarrow>
                           (Inr (), t,
                            [EditChannelName c (stage_name st @ '' - '' @ remaining_time)])))))"

text \<open>
  \<open>pretty_pinstatus\<close>. The prefix of a line that is not the current one is the literal
  U+200B followed by two spaces. The enum has three values, so \<open>status_str\<close> is always
  bound.
\<close>

definition zero_width_space :: string where
  "zero_width_space = [CHR 0xE2, CHR 0x80, CHR 0x8B]"

definition backtick :: char where
  "backtick = CHR 0x60"

definition stage_line :: "nat \<Rightarrow> int \<Rightarrow> string \<Rightarrow> nat \<times> TimerStage \<Rightarrow> string" where
  "stage_line longest_stage_len cur remaining_str p =
     (case p of (i, stage) \<Rightarrow>
        [backtick]
        @ (if int i = cur then ''->'' else zero_width_space @ ''  '')
        @ fmt_right longest_stage_len (stage_name stage)
        @ '':'' @ [backtick] @ '' ''
        @ str_int (stage_duration stage)
        @ '' min  ''
        @ (if int i = cur then ''(**'' @ remaining_str @ ''**)'' else []))"

definition subscriber_listing :: "(int \<times> TimerSubscriber) list \<Rightarrow> string" where
  "subscriber_listing subs =
     (let subbed_names = map (\<lambda>m. member_name (sub_member (snd m))) subs
      in if subbed_names \<noteq> []
         then replicate 3 backtick @ join '', '' subbed_names @ replicate 3 backtick
         else ''*No subscribers*'')"

definition pretty_pinstatus :: "Timer \<Rightarrow> error + string" where
  "pretty_pinstatus t =
     (if state t = RUNNING \<or> state t = PAUSED then
        (case stages t of
           None \<Rightarrow> Inl TypeError
         | Some ss \<Rightarrow>
             (case py_index ss (current_stage t) of
                Inl e \<Rightarrow> Inl e
              | Inr cur_stage \<Rightarrow>
                  (case pretty_remaining t of
                     Inl e \<Rightarrow> Inl e
                   | Inr remaining_str \<Rightarrow>
                       (let current_stage_name = stage_name cur_stage;
                            subbed_str = subscriber_listing (subscribed t)
                        in if ss = [] then Inl ValueError
                           else
                             (let longest_stage_len =
                                    foldr max (map (\<lambda>stage. py_len (stage_name stage)) ss) 0;
                                  stage_str_lines =
                                    map (stage_line longest_stage_len (current_stage t) remaining_str)
                                      (zip [0 ..< length ss] ss);
                                  stage_str = join NL stage_str_lines
                              in Inr (''**'' @ timer_name t @ ''** ('' @ current_stage_name @ '')''
                                      @ (if state t = PAUSED then '' ***Paused***'' else [])
                                      @ NL @ stage_str @ NL @ subbed_str))))))
      else Inr (''**'' @ timer_name t @ ''**: *Not set up.*''))"

text \<open>
  \<open>change_stage\<close>. Its first statement is
  \<^verbatim>\<open>[subber.touch() for subber in self.subscribed]\<close>:
  iterating a dict yields its keys, here the participant ids, and an \<open>int\<close> has no
  attribute \<open>touch\<close>. \<open>touch_key\<close> is that call on one key.
  \<open>len(None)\<close> raises \<open>TypeError\<close>, \<open>%\<close> by zero \<open>ZeroDivisionError\<close>. The message goes
  out through \<open>self.channel.send\<close>, whose exception is not caught; the one of
  \<open>add_reaction\<close> (the check mark U+2705) is. The parameter \<open>inactivity_check\<close> is not
  used by the body.
\<close>

definition touch_key :: "int \<Rightarrow> error + unit" where
  "touch_key k = Inl AttributeError"

definition stage_notification :: "Role \<Rightarrow> bool \<Rightarrow> TimerStage \<Rightarrow> TimerStage \<Rightarrow> string" where
  "stage_notification rl report_old cur new =
     (let old_stage_str = (if report_old then ''**'' @ stage_name cur @ ''** finished! '' else [])
      in role_mention rl @ NL @ old_stage_str
         @ ''Starting **'' @ stage_name new @ ''** ('' @ str_int (stage_duration new)
         @ '' minutes). '' @ stage_message new @ NL
         @ ''Please react to this message to register your presence!'')"

definition change_stage ::
  "env \<Rightarrow> int \<Rightarrow> int \<Rightarrow> bool \<Rightarrow> bool \<Rightarrow> bool \<Rightarrow> Timer \<Rightarrow> (error + unit) \<times> Timer \<times> action list" where
  "change_stage env now stage_index notify inactivity_check report_old t =
     (case collect touch_key (map fst (subscribed t)) of
        Inl e \<Rightarrow> (Inl e, t, [])
      | Inr _ \<Rightarrow>
          (case stages t of
             None \<Rightarrow> (Inl TypeError, t, [])
           | Some ss \<Rightarrow>
               if length ss = 0 then (Inl ZeroDivisionError, t, [])
               else
                 (let idx = stage_index mod int (length ss) in
                  case py_index ss (current_stage t) of
                    Inl e \<Rightarrow> (Inl e, t, [])
                  | Inr cur \<Rightarrow>
                      (case py_index ss idx of
                         Inl e \<Rightarrow> (Inl e, t, [])
                       | Inr new \<Rightarrow>
                           (let t' = t\<lparr> current_stage := idx,
                                        current_stage_start := Some now,
                                        remaining := Some (stage_duration new * 60) \<rparr>
                            in if notify then
                                 (let a = Send (channel t)
                                            (stage_notification (role t) report_old cur new)
                                  in case env a of
                                       Raised e \<Rightarrow> (Inl e, t, [a])
                                     | Done h \<Rightarrow> (Inr (), t', [a, AddReaction h]))
                               else (Inr (), t', []))))))"

text \<open>\<open>start\<close>: there is no test of \<open>self.state\<close> before the loop is scheduled.\<close>

definition start :: "env \<Rightarrow> int \<Rightarrow> Timer \<Rightarrow> (error + unit) \<times> Timer \<times> action list" where
  "start env now t =
     (case change_stage env now 0 True True False t of
        (Inl e, t', tr) \<Rightarrow> (Inl e, t', tr)
      | (Inr _, t', tr) \<Rightarrow> (Inr (), t'\<lparr> state := RUNNING \<rparr>, tr @ [EnsureFuture_runloop]))"

text \<open>
  Arithmetic on doubles. \<open>to_double\<close> rounds a real number to the nearest double, ties
  to the even mantissa (53 bits, subnormals below \<open>2 ^ -1022\<close>). A result of magnitude
  \<open>2 ^ 1024\<close> or more does not exist as a finite double: the conversion of an \<open>int\<close>
  raises \<open>OverflowError\<close> there, and a subtraction gives an infinity, on which the
  \<open>int(...)\<close> that encloses the expression raises \<open>OverflowError\<close> as well, so the
  statement ends with that exception in both cases.
\<close>

definition round_half_even :: "real \<Rightarrow> int" where
  "round_half_even y =
     (let f = \<lfloor>y\<rfloor>; d = y - real_of_int f in
      if d < 1 / 2 then f
      else if 1 / 2 < d then f + 1
      else if even f then f else f + 1)"

definition to_double :: "real \<Rightarrow> error + real" where
  "to_double x =
     (if x = 0 then Inr 0
      else
        (let e = max \<lfloor>log 2 \<bar>x\<bar>\<rfloor> (- 1022);
             ulp = 2 powr real_of_int (e - 52);
             y = ulp * real_of_int (round_half_even (x / ulp))
         in if 2 powr 1024 \<le> \<bar>y\<bar> then Inl OverflowError else Inr y))"

text \<open>\<open>int(x)\<close> of a finite double truncates towards zero.\<close>

definition py_int :: "real \<Rightarrow> int" where
  "py_int x = (if 0 \<le> x then \<lfloor>x\<rfloor> else \<lceil>x\<rceil>)"

text \<open>
  The right-hand side of the first statement of the loop body,
  \<^verbatim>\<open>int(60*duration - (time.time() - self.current_stage_start))\<close>:
  \<open>60*duration\<close> is computed on integers; \<open>now_f\<close> is the double that \<open>time.time()\<close>
  returns; each subtraction converts its integer operand to a double and rounds its
  result.
\<close>

definition remaining_now :: "real \<Rightarrow> int \<Rightarrow> int \<Rightarrow> error + int" where
  "remaining_now now_f duration css =
     and_then (to_double (real_of_int css)) (\<lambda>start_f.
     and_then (to_double (now_f - start_f)) (\<lambda>elapsed.
     and_then (to_double (real_of_int (60 * duration))) (\<lambda>total.
     and_then (to_double (total - elapsed)) (\<lambda>x.
     Inr (py_int x)))))"

text \<open>
  One turn of the \<open>while\<close> loop of \<open>runloop\<close>: \<open>None\<close> when the condition fails and the
  loop ends, otherwise the body up to \<open>asyncio.sleep(1)\<close>. The body reads the clock three
  times: \<open>now_f\<close> is the double from \<open>time.time()\<close>, \<open>now_cs\<close> the reading inside
  \<open>change_stage\<close> and \<open>now_uc\<close> the one inside \<open>update_clock_channel\<close>. A
  \<open>current_stage_start\<close> that is \<open>None\<close> makes the subtraction raise \<open>TypeError\<close>.
\<close>

definition runloop_body ::
  "env \<Rightarrow> real \<Rightarrow> int \<Rightarrow> int \<Rightarrow> Timer \<Rightarrow> (error + unit) \<times> Timer \<times> action list" where
  "runloop_body env now_f now_cs now_uc t =
     (case stages t of
        None \<Rightarrow> (Inl TypeError, t, [])
      | Some ss \<Rightarrow>
          (case py_index ss (current_stage t) of
             Inl e \<Rightarrow> (Inl e, t, [])
           | Inr st \<Rightarrow>
               (case current_stage_start t of
                  None \<Rightarrow> (Inl TypeError, t, [])
                | Some css \<Rightarrow>
                    (case remaining_now now_f (stage_duration st) css of
                       Inl e \<Rightarrow> (Inl e, t, [])
                     | Inr r \<Rightarrow>
                         (let t1 = t\<lparr> remaining := Some r \<rparr>
                          in case (if r \<le> 0
                                   then change_stage env now_cs (current_stage t1 + 1)
                                          True True True t1
                                   else (Inr (), t1, [])) of
                               (Inl e, t2, tr) \<Rightarrow> (Inl e, t2, tr)
                             | (Inr _, t2, tr) \<Rightarrow>
                                 (case update_clock_channel now_uc t2 of
                                    (out, t3, tr') \<Rightarrow> (out, t3, tr @ tr')))))))"

definition runloop_iter ::
  "env \<Rightarrow> real \<Rightarrow> int \<Rightarrow> int \<Rightarrow> Timer \<Rightarrow> ((error + unit) \<times> Timer \<times> action list) option" where
  "runloop_iter env now_f now_cs now_uc t =
     (if state t = RUNNING then Some (runloop_body env now_f now_cs now_uc t) else None)"

text \<open>
  The event loop, as far as the number of loops goes: a timer together with the number
  of \<open>runloop\<close> tasks that \<open>ensure_future\<close> has created and that have not ended. A task
  ends when its loop condition fails or when an exception leaves its body. The tasks of
  one timer have no local state, so a turn of any of them is \<open>Tick\<close>. \<open>SetState\<close> is the
  assignment to \<open>timer.state\<close> by which a caller pauses or stops the timer.
\<close>

record Sched =
  sched_timer :: Timer
  sched_loops :: nat

datatype event =
    CallStart int
  | Tick real int int
  | SetState TimerState

fun sched_step :: "env \<Rightarrow> Sched \<Rightarrow> event \<Rightarrow> Sched" where
  "sched_step env s (CallStart now) =
     (case start env now (sched_timer s) of
        (out, t', tr) \<Rightarrow>
          \<lparr> sched_timer = t',
            sched_loops = sched_loops s + length (filter (\<lambda>a. a = EnsureFuture_runloop) tr) \<rparr>)"
| "sched_step env s (Tick now_f now_cs now_uc) =
     (if sched_loops s = 0 then s
      else
        (case runloop_iter env now_f now_cs now_uc (sched_timer s) of
           None \<Rightarrow> s\<lparr> sched_loops := sched_loops s - 1 \<rparr>
         | Some (Inl e, t', tr) \<Rightarrow> \<lparr> sched_timer = t', sched_loops = sched_loops s - 1 \<rparr>
         | Some (Inr _, t', tr) \<Rightarrow> \<lparr> sched_timer = t', sched_loops = sched_loops s \<rparr>))"
| "sched_step env s (SetState st) = s\<lparr> sched_timer := (sched_timer s)\<lparr> state := st \<rparr> \<rparr>"

definition sched_run :: "env \<Rightarrow> Sched \<Rightarrow> event list \<Rightarrow> Sched" where
  "sched_run env s evs = foldl (sched_step env) s evs"

subsection \<open>TimerChannel\<close>

record TimerChannel =
  tc_channel :: nat
  timers :: "Timer list"
  msg :: "handle option"

definition TimerChannel_init :: "nat \<Rightarrow> TimerChannel" where
  "TimerChannel_init ch = \<lparr> tc_channel = ch, timers = [], msg = None \<rparr>"

definition embeds_notice :: string where
  "embeds_notice = ''I require permission to send embeds in this channel! Stopping all timers.''"

text \<open>
  \<open>TimerChannel.update\<close>; \<open>stamp\<close> is \<open>datetime.datetime.now()\<close>. Only
  \<open>discord.Forbidden\<close> is caught around the creation, and the notice is sent inside the
  handler, outside any \<open>try\<close>. After the handler \<open>self.msg\<close> is still \<open>None\<close>, so
  \<open>self.msg.pin()\<close> raises \<open>AttributeError\<close>, which \<open>except Exception\<close> swallows: no
  action.
\<close>

definition status_embed :: "int \<Rightarrow> string list \<Rightarrow> Embed" where
  "status_embed stamp messages =
     \<lparr> embed_title = ''Pomodoro Timer Status'',
       embed_description = join (NL @ NL) messages,
       embed_timestamp = stamp \<rparr>"

definition update :: "env \<Rightarrow> int \<Rightarrow> TimerChannel \<Rightarrow> (error + unit) \<times> TimerChannel \<times> action list" where
  "update env stamp ch =
     (case collect pretty_pinstatus (timers ch) of
        Inl e \<Rightarrow> (Inl e, ch, [])
      | Inr messages \<Rightarrow>
          if messages = [] then (Inr (), ch, [])
          else
            (let embed = status_embed stamp messages
             in case msg ch of
                  Some h \<Rightarrow> (Inr (), ch, [EditMessage h embed])
                | None \<Rightarrow>
                    (let a = SendEmbed (tc_channel ch) embed in
                     case env a of
                       Done h \<Rightarrow> (Inr (), ch\<lparr> msg := Some h \<rparr>, [a, Pin h])
                     | Raised e \<Rightarrow>
                         if e = Forbidden then
                           (let b = Send (tc_channel ch) embeds_notice in
                            case env b of
                              Raised e' \<Rightarrow> (Inl e', ch, [a, b])
                            | Done _ \<Rightarrow>
                                (Inr (),
                                 ch\<lparr> timers := map (\<lambda>timer. timer\<lparr> state := STOPPED \<rparr>)
                                                  (timers ch) \<rparr>,
                                 [a, b]))
                         else (Inl e, ch, [a]))))"




subsection \<open>Example objects\<close>

text \<open>Concrete stages, timers and environments at which the theorems below are instantiated.\<close>

definition ex_role :: Role where
  "ex_role = \<lparr> role_id = 7, role_mention = ''@study'' \<rparr>"

definition ex_stage :: "string \<Rightarrow> int \<Rightarrow> TimerStage" where
  "ex_stage nm d = \<lparr> stage_name = nm, stage_duration = d, stage_message = [], stage_focus = False,
       stage_modifiers = [] \<rparr>"

definition ex_stages :: "TimerStage list" where
  "ex_stages = [ex_stage ''Work'' 25, ex_stage ''Break'' 5, ex_stage ''Rest'' 15]"

definition ex_timer :: Timer where
  "ex_timer = snd (Timer_init ''Study'' ex_role 1 (Some 2) (Some ex_stages) 1000 1000)"

definition ex_env :: env where
  "ex_env a = Done 0"

definition ex_member :: Member where
  "ex_member = \<lparr> member_id = 5, member_name = ''ann'', member_guild_id = 9 \<rparr>"

definition ex_timer_subscribed :: Timer where
  "ex_timer_subscribed = ex_timer\<lparr> subscribed := [(5, TimerSubscriber_init ex_member 7 1000)] \<rparr>"

text \<open>The timer after \<open>start()\<close> at clock reading 1000.\<close>

definition ex_running :: Timer where
  "ex_running = fst (snd (start ex_env 1000 ex_timer))"

text \<open>
  Two environments for a bot without privileges: one that may send text but no embed,
  one that may send nothing.
\<close>

definition ex_env_no_embeds :: env where
  "ex_env_no_embeds a = (case a of SendEmbed c e \<Rightarrow> Raised Forbidden | _ \<Rightarrow> Done 0)"

definition ex_env_forbidden :: env where
  "ex_env_forbidden a = Raised Forbidden"

definition ex_channel :: TimerChannel where
  "ex_channel = \<lparr> tc_channel = 1, timers = [ex_running, ex_timer], msg = None \<rparr>"

text \<open>What the two example timers render to.\<close>

definition ex_status_running :: string where
  "ex_status_running =
     ''**Study** (Work)'' @ NL
     @ [backtick] @ ''-> Work:'' @ [backtick] @ '' 25 min  (**00:25:00**)'' @ NL
     @ [backtick] @ zero_width_space @ ''  Break:'' @ [backtick] @ '' 5 min  '' @ NL
     @ [backtick] @ zero_width_space @ ''   Rest:'' @ [backtick] @ '' 15 min  '' @ NL
     @ ''*No subscribers*''"

definition ex_status_stopped :: string where
  "ex_status_stopped = ''**Study**: *Not set up.*''"

section \<open>Properties\<close>

subsection \<open>Subscriber accounting\<close>

text \<open>
  C7: \<open>touch()\<close> adds \<open>now - last_updated\<close> to \<open>clocked_time\<close> exactly when the subscriber
  is active and adds nothing otherwise, always sets \<open>last_updated\<close> to \<open>now\<close>, and a second
  \<open>touch()\<close> at the same clock reading leaves \<open>clocked_time\<close> as the first one left it.
\<close>

theorem touch_accounting:
  "clocked_time (touch now s) = clocked_time s + (if active s then now - last_updated s else 0)
   \<and> last_updated (touch now s) = now
   \<and> active (touch now s) = active s
   \<and> clocked_time (touch now (touch now s)) = clocked_time (touch now s)"
  by (simp add: touch_def)

text \<open>
  C10: a newly constructed subscriber is active, has clocked no time and has no warnings,
  and its three time stamps are the creation time; a first \<open>touch()\<close> at a later reading
  credits the whole time since creation, with no activation step in between.
\<close>

theorem TimerSubscriber_init_fields:
  "active (TimerSubscriber_init m rid now)
   \<and> clocked_time (TimerSubscriber_init m rid now) = 0
   \<and> warnings (TimerSubscriber_init m rid now) = 0
   \<and> time_joined (TimerSubscriber_init m rid now) = now
   \<and> last_updated (TimerSubscriber_init m rid now) = now
   \<and> last_seen (TimerSubscriber_init m rid now) = now
   \<and> clocked_time (touch later (TimerSubscriber_init m rid now)) = later - now"
  by (simp add: TimerSubscriber_init_def touch_def)

subsection \<open>Serialisation\<close>

lemma getattr_time_subbed: "getattr_int s ''time_subbed'' = Inl AttributeError"
  by (simp add: getattr_int_def TimerSubscriber_slots_def)

lemma setattr_time_subbed: "setattr_int s ''time_subbed'' v = Inl AttributeError"
  by (simp add: setattr_int_def TimerSubscriber_slots_def)

lemma deserialise_always_raises: "\<exists>e. deserialise m rid now data = Inl e"
  by (auto simp: deserialise_def and_then_def setattr_time_subbed split: sum.splits)

text \<open>
  C3 asks that \<open>deserialise\<close> of the tuple made by \<open>serialise\<close> gives back the five
  accounting fields. The code does not get that far: \<open>serialise\<close> reads
  \<open>self.time_subbed\<close> and \<open>deserialise\<close> assigns it, and \<open>time_subbed\<close> is not a slot
  (the accumulated time lives in \<open>clocked_time\<close>). Both raise \<open>AttributeError\<close> for
  every subscriber and every eight-element tuple.
\<close>

theorem serialise_raises:
  "serialise s = Inl AttributeError
   \<and> deserialise m rid now [d0, d1, d2, d3, d4, d5, d6, d7] = Inl AttributeError"
  by (simp add: serialise_def deserialise_def and_then_def getattr_int_def setattr_int_def
      TimerSubscriber_slots_def py_index_def)

subsection \<open>Stage changes\<close>

lemma ex_timer_eq:
  "ex_timer = \<lparr> channel = 1, clock_channel = Some 2, role = ex_role, timer_name = ''Study'',
                start_time = Some 1000, current_stage_start = Some 1000, remaining = Some 25,
                state = STOPPED, stages = Some ex_stages, current_stage = 0, subscribed = [],
                last_clockupdate = 0 \<rparr>"
  by (simp add: ex_timer_def Timer_init_def Timer_setup_def ex_stages_def py_index_def ex_stage_def)

lemma collect_touch_key:
  "collect touch_key ks = (if ks = [] then Inr [] else Inl AttributeError)"
  by (cases ks) (simp_all add: touch_key_def)

lemma change_stage_raises_on_subscribers:
  "subscribed t \<noteq> [] \<Longrightarrow> change_stage env now i notify ic ro t = (Inl AttributeError, t, [])"
  by (simp add: change_stage_def collect_touch_key)

text \<open>
  C1 asks that \<open>change_stage\<close> runs \<open>touch()\<close> on every subscriber and then completes.
  The comprehension iterates the dict itself, so it calls \<open>touch\<close> on the keys: with one
  subscriber in the mapping, \<open>change_stage\<close> raises \<open>AttributeError\<close> at once, credits
  nothing and changes no field (the lemma above: so it does for every non-empty mapping).
\<close>

theorem change_stage_never_touches:
  "subscribed ex_timer_subscribed \<noteq> []
   \<and> change_stage ex_env 2500 1 True True True ex_timer_subscribed
       = (Inl AttributeError, ex_timer_subscribed, [])"
  by (simp add: ex_timer_subscribed_def change_stage_def touch_key_def)

lemma py_index_mod:
  "ss \<noteq> [] \<Longrightarrow> py_index ss (i mod int (length ss)) = Inr (ss ! nat (i mod int (length ss)))"
  by (simp add: py_index_def)

text \<open>
  When does \<open>change_stage\<close> complete: with no subscriber, a non-empty stage list, a
  current index that Python accepts and a channel that takes the message, for every
  integer \<open>i\<close>.
\<close>

lemma change_stage_completes:
  assumes "subscribed t = []" "stages t = Some ss" "ss \<noteq> []"
    and "- int (length ss) \<le> current_stage t" "current_stage t < int (length ss)"
    and "\<And>a. \<exists>h. env a = Done h"
  shows "\<exists>tr. change_stage env now i notify ic ro t =
           (Inr (),
            t\<lparr> current_stage := i mod int (length ss), current_stage_start := Some now,
               remaining := Some (stage_duration (ss ! nat (i mod int (length ss))) * 60) \<rparr>,
            tr)"
proof -
  obtain cur where cur: "py_index ss (current_stage t) = Inr cur"
    using assms(4,5) by (cases "0 \<le> current_stage t") (simp_all add: py_index_def Let_def)
  let ?new = "ss ! nat (i mod int (length ss))"
  obtain h where h: "env (Send (channel t) (stage_notification (role t) ro cur ?new)) = Done h"
    using assms(6) by blast
  show ?thesis
    using assms(1-3) cur h
    by (cases notify) (simp_all add: change_stage_def collect_touch_key py_index_mod Let_def)
qed

text \<open>
  What the statements after the comprehension do: whenever \<open>change_stage(i)\<close> completes,
  the timer has a non-empty stage list, the new \<open>current_stage\<close> is \<open>i mod len(stages)\<close>,
  which lies in \<open>[0, len(stages))\<close> also for negative \<open>i\<close>, and \<open>remaining\<close> is sixty
  times the duration of the stage at that index.
\<close>

lemma change_stage_result:
  assumes "change_stage env now i notify ic ro t = (Inr u, t', tr)"
  shows "\<exists>ss. stages t = Some ss \<and> ss \<noteq> [] \<and> stages t' = Some ss
           \<and> current_stage t' = i mod int (length ss)
           \<and> 0 \<le> current_stage t' \<and> current_stage t' < int (length ss)
           \<and> remaining t' = Some (stage_duration (ss ! nat (i mod int (length ss))) * 60)"
proof -
  from assms obtain ss where ss: "stages t = Some ss" "ss \<noteq> []"
    by (auto simp: change_stage_def split: sum.splits option.splits if_splits)
  from assms ss have t': "t' = t\<lparr> current_stage := i mod int (length ss),
                        current_stage_start := Some now,
                        remaining := Some (stage_duration (ss ! nat (i mod int (length ss))) * 60) \<rparr>"
    by (auto simp: change_stage_def py_index_mod Let_def split: sum.splits if_splits response.splits)
  show ?thesis using ss by (simp add: t')
qed

text \<open>
  A call that completes has found the subscriber mapping empty.
\<close>

lemma change_stage_completes_only_unsubscribed:
  assumes "change_stage env now i notify ic ro t = (Inr u, t', tr)"
  shows "subscribed t = []"
proof (rule ccontr)
  assume "subscribed t \<noteq> []"
  from change_stage_raises_on_subscribers [OF this, of env now i notify ic ro] assms
  show False by simp
qed

text \<open>
  On the timer with three stages (25, 5 and 15 minutes) and no subscriber,
  \<open>change_stage(3)\<close> gives index 0 and 1500 seconds, \<open>change_stage(-1)\<close> index 2 and 900
  seconds.
\<close>

lemma change_stage_unsubscribed_examples:
  "change_stage ex_env 2500 3 False True True ex_timer
     = (Inr (), ex_timer\<lparr> current_stage := 0, current_stage_start := Some 2500,
                          remaining := Some 1500 \<rparr>, [])
   \<and> change_stage ex_env 2500 (- 1) False True True ex_timer
     = (Inr (), ex_timer\<lparr> current_stage := 2, current_stage_start := Some 2500,
                          remaining := Some 900 \<rparr>, [])"
  by (simp add: ex_timer_eq change_stage_def ex_stages_def ex_stage_def py_index_def)

text \<open>
  C2 asks, for every timer with a non-empty stage list and every integer \<open>i\<close>, that
  \<open>change_stage(i)\<close> leaves \<open>current_stage = i mod len(stages)\<close> and \<open>remaining\<close> at sixty
  times the new stage's duration. The code gets there only with an empty subscriber
  mapping (the lemmas above). With one subscriber the comprehension over the keys raises
  before the index is computed: on the example timer with its three stages,
  \<open>change_stage(-1)\<close> raises \<open>AttributeError\<close>, \<open>current_stage\<close> stays 0 where the
  claim has 2, and \<open>remaining\<close> stays 25 where the claim has 900.
\<close>

theorem change_stage_index_not_reached:
  "stages ex_timer_subscribed = Some ex_stages
   \<and> length ex_stages = 3
   \<and> map fst (subscribed ex_timer_subscribed) = [5]
   \<and> change_stage ex_env 2500 (- 1) True True True ex_timer_subscribed
       = (Inl AttributeError, ex_timer_subscribed, [])
   \<and> current_stage ex_timer_subscribed = 0
   \<and> remaining ex_timer_subscribed = Some 25
   \<and> (- 1) mod int (length ex_stages) = 2"
  by (simp add: ex_timer_subscribed_def change_stage_def touch_key_def ex_timer_eq ex_stages_def)

subsection \<open>Setting a timer up\<close>

lemma ex_running_eq:
  "ex_running = ex_timer\<lparr> current_stage := 0, current_stage_start := Some 1000,
                           remaining := Some 1500, state := RUNNING \<rparr>"
  by (simp add: ex_running_def start_def ex_timer_eq change_stage_def ex_env_def ex_stages_def
      py_index_def ex_stage_def)

lemma Timer_setup_ok:
  "Timer_setup now1 now2 (Some (s0 # ss)) t
     = (Inr (), t\<lparr> state := STOPPED, stages := Some (s0 # ss), current_stage := 0,
                  start_time := Some now1, remaining := Some (stage_duration s0),
                  current_stage_start := Some now2 \<rparr>)"
  by (simp add: Timer_setup_def py_index_def)

text \<open>
  C5, as amended: \<open>setup\<close> with a missing or an empty stage list is rejected, with
  \<open>TypeError\<close> and \<open>IndexError\<close>, but only after \<open>state\<close>, \<open>stages\<close>, \<open>current_stage\<close>
  and \<open>start_time\<close> have been assigned; \<open>current_stage_start\<close> and \<open>remaining\<close> keep
  their values.
\<close>

theorem Timer_setup_rejects:
  "Timer_setup now1 now2 None t
     = (Inl TypeError,
        t\<lparr> state := STOPPED, stages := None, current_stage := 0, start_time := Some now1 \<rparr>)
   \<and> Timer_setup now1 now2 (Some []) t
     = (Inl IndexError,
        t\<lparr> state := STOPPED, stages := Some [], current_stage := 0, start_time := Some now1 \<rparr>)
   \<and> current_stage_start (snd (Timer_setup now1 now2 None t)) = current_stage_start t
   \<and> remaining (snd (Timer_setup now1 now2 None t)) = remaining t
   \<and> current_stage_start (snd (Timer_setup now1 now2 (Some []) t)) = current_stage_start t
   \<and> remaining (snd (Timer_setup now1 now2 (Some []) t)) = remaining t"
  by (simp add: Timer_setup_def py_index_def)

text \<open>
  C5 as stated fails: \<open>setup([])\<close> on the running example timer raises and leaves it
  stopped, with an empty stage list and a new session start.
\<close>

theorem Timer_setup_empty_mutates:
  "Timer_setup 2000 2001 (Some []) ex_running
     = (Inl IndexError,
        ex_running\<lparr> state := STOPPED, stages := Some [], start_time := Some 2000 \<rparr>)
   \<and> state ex_running = RUNNING
   \<and> stages ex_running = Some ex_stages
   \<and> start_time ex_running = Some 1000"
  by (simp add: Timer_setup_def py_index_def ex_running_eq ex_timer_eq)

subsection \<open>Refreshing the clock channel\<close>

lemma pretty_remaining_examples:
  "pretty_remaining (t\<lparr> remaining := Some 125 \<rparr>) = Inr ''00:02:05''
   \<and> pretty_remaining (t\<lparr> remaining := Some (- 7) \<rparr>) = Inr ''00:00:00''
   \<and> pretty_remaining (t\<lparr> remaining := None \<rparr>) = Inl TypeError"
  by (simp add: pretty_remaining_def fmt_02d_def str_nat.simps digit_char_def)

lemma update_clock_channel_keeps_timer: "fst (snd (update_clock_channel now t)) = t"
  by (simp add: update_clock_channel_def split: option.splits sum.splits)

text \<open>
  \<open>last_clockupdate\<close> is 0 from \<open>__init__\<close> on: none of the methods assigns it.
\<close>

lemma last_clockupdate_never_assigned:
  "last_clockupdate (snd (Timer_setup now1 now2 stgs t)) = last_clockupdate t
   \<and> last_clockupdate (fst (snd (change_stage env now i notify ic ro t))) = last_clockupdate t
   \<and> last_clockupdate (fst (snd (start env now t))) = last_clockupdate t
   \<and> last_clockupdate (fst (snd (update_clock_channel now t))) = last_clockupdate t"
proof -
  have c: "\<And>i notify ick ro.
             last_clockupdate (fst (snd (change_stage env now i notify ick ro t))) = last_clockupdate t"
    by (simp add: change_stage_def Let_def split: sum.splits option.splits response.splits)
  have s: "last_clockupdate (fst (snd (start env now t))) = last_clockupdate t"
  proof -
    obtain out t1 tr1 where r: "change_stage env now 0 True True False t = (out, t1, tr1)"
      by (cases "change_stage env now 0 True True False t") auto
    with c [of 0 True True False] have "last_clockupdate t1 = last_clockupdate t" by simp
    with r show ?thesis by (cases out) (simp_all add: start_def)
  qed
  have u: "last_clockupdate (snd (Timer_setup now1 now2 stgs t)) = last_clockupdate t"
    by (simp add: Timer_setup_def Let_def split: sum.splits option.splits)
  show ?thesis using c s u by (simp add: update_clock_channel_keeps_timer)
qed

text \<open>
  C4 asks that no edit goes out within 5 seconds of the last refresh. The method
  compares the clock with \<open>last_clockupdate\<close> but never stores the time of a refresh
  there, so the test fails only during the first five seconds after the epoch: on the
  running example timer a refresh at 1001 and one at 1002, a second later, both edit the
  channel name.
\<close>

theorem update_clock_channel_not_limited:
  "last_clockupdate ex_running = 0
   \<and> update_clock_channel 1001 ex_running
       = (Inr (), ex_running, [EditChannelName 2 ''Work - 00:25:00''])
   \<and> update_clock_channel 1002 (fst (snd (update_clock_channel 1001 ex_running)))
       = (Inr (), ex_running, [EditChannelName 2 ''Work - 00:25:00''])"
  by (simp add: update_clock_channel_keeps_timer)
     (simp add: ex_running_eq ex_timer_eq update_clock_channel_def clock_period_def
      ex_stages_def ex_stage_def py_index_def pretty_remaining_def fmt_02d_def str_nat.simps
      digit_char_def)

subsection \<open>The status message of a channel\<close>

lemma pretty_pinstatus_ex_timer: "pretty_pinstatus ex_timer = Inr ex_status_stopped"
  by (simp add: pretty_pinstatus_def ex_timer_eq ex_status_stopped_def)

lemma pretty_pinstatus_ex_running: "pretty_pinstatus ex_running = Inr ex_status_running"
  by (simp add: pretty_pinstatus_def ex_running_eq ex_timer_eq ex_stages_def ex_stage_def
      py_index_def pretty_remaining_def fmt_02d_def str_nat.simps digit_char_def
      subscriber_listing_def stage_line_def fmt_right_def py_len_def is_continuation_def
      str_int_def upt_rec [of 0] upt_rec [of 1] upt_rec [of 2] upt_rec [of 3]
      ex_status_running_def)




lemma collect_ex_channel:
  "collect pretty_pinstatus (timers ex_channel) = Inr [ex_status_running, ex_status_stopped]"
  by (simp add: ex_channel_def pretty_pinstatus_ex_running pretty_pinstatus_ex_timer)



text \<open>
  C6, as amended: when there is no status message, the creation of one is rejected with
  \<open>Forbidden\<close> and the channel accepts the plain notice, \<open>update\<close> sends the notice,
  stops every member timer (and keeps all of them) and returns without an exception. The
  claim as written leaves the condition on the notice out.
\<close>

theorem update_forbidden_stops_timers:
  assumes "msg ch = None"
    and "collect pretty_pinstatus (timers ch) = Inr messages" and "messages \<noteq> []"
    and "env (SendEmbed (tc_channel ch) (status_embed stamp messages)) = Raised Forbidden"
    and "env (Send (tc_channel ch) embeds_notice) = Done h"
  shows "update env stamp ch
           = (Inr (),
              ch\<lparr> timers := map (\<lambda>timer. timer\<lparr> state := STOPPED \<rparr>) (timers ch) \<rparr>,
              [SendEmbed (tc_channel ch) (status_embed stamp messages),
               Send (tc_channel ch) embeds_notice])
         \<and> (\<forall>t \<in> set (timers (fst (snd (update env stamp ch)))). state t = STOPPED)
         \<and> length (timers (fst (snd (update env stamp ch)))) = length (timers ch)"
  using assms by (simp add: update_def Let_def)

text \<open>
  The theorem at the example channel, for a bot that may send text but no embed: the
  running timer is stopped.
\<close>

theorem update_forbidden_stops_timers_witness:
  "update ex_env_no_embeds 77 ex_channel
     = (Inr (),
        ex_channel\<lparr> timers := [ex_running\<lparr> state := STOPPED \<rparr>, ex_timer\<lparr> state := STOPPED \<rparr>] \<rparr>,
        [SendEmbed 1 (status_embed 77 [ex_status_running, ex_status_stopped]),
         Send 1 embeds_notice])
   \<and> state ex_running = RUNNING"
proof -
  let ?ms = "[ex_status_running, ex_status_stopped]"
  have m: "msg ex_channel = None" by (simp add: ex_channel_def)
  have ne: "?ms \<noteq> []" by simp
  have f: "ex_env_no_embeds (SendEmbed (tc_channel ex_channel) (status_embed 77 ?ms)) = Raised Forbidden"
    by (simp add: ex_env_no_embeds_def)
  have d: "ex_env_no_embeds (Send (tc_channel ex_channel) embeds_notice) = Done 0"
    by (simp add: ex_env_no_embeds_def)
  from update_forbidden_stops_timers [OF m collect_ex_channel ne f d]
  show ?thesis by (auto simp: ex_channel_def ex_running_eq)
qed

text \<open>
  C6 as stated fails: for a bot that may not send at all, the creation is rejected with
  \<open>Forbidden\<close>, the notice is rejected as well, its exception leaves \<open>update\<close>, and the
  running timer keeps running.
\<close>

theorem update_notice_failure_propagates:
  "msg ex_channel = None
   \<and> ex_env_forbidden (SendEmbed 1 (status_embed 77 [ex_status_running, ex_status_stopped]))
       = Raised Forbidden
   \<and> update ex_env_forbidden 77 ex_channel
       = (Inl Forbidden, ex_channel,
          [SendEmbed 1 (status_embed 77 [ex_status_running, ex_status_stopped]),
           Send 1 embeds_notice])
   \<and> map state (timers ex_channel) = [RUNNING, STOPPED]"
proof -
  have m: "msg ex_channel = None" "tc_channel ex_channel = 1" by (simp_all add: ex_channel_def)
  have u: "update ex_env_forbidden 77 ex_channel
             = (Inl Forbidden, ex_channel,
                [SendEmbed 1 (status_embed 77 [ex_status_running, ex_status_stopped]),
                 Send 1 embeds_notice])"
    using m by (simp add: update_def collect_ex_channel Let_def ex_env_forbidden_def)
  have s: "map state (timers ex_channel) = [RUNNING, STOPPED]"
    by (simp add: ex_channel_def ex_running_eq ex_timer_eq)
  show ?thesis using m(1) u s by (simp add: ex_env_forbidden_def)
qed

subsection \<open>Starting a timer and its loops\<close>

lemma change_stage_trace:
  "change_stage env now i notify ic ro t = (out, t', tr) \<Longrightarrow> EnsureFuture_runloop \<notin> set tr"
  by (auto simp: change_stage_def Let_def split: sum.splits option.splits if_splits response.splits)

lemma start_result:
  assumes "start env now t = (Inr u, t', tr)"
  shows "state t' = RUNNING \<and> filter (\<lambda>a. a = EnsureFuture_runloop) tr = [EnsureFuture_runloop]"
proof -
  obtain out t1 tr1 where c: "change_stage env now 0 True True False t = (out, t1, tr1)"
    by (cases "change_stage env now 0 True True False t") auto
  from assms c have "t' = t1\<lparr> state := RUNNING \<rparr>" "tr = tr1 @ [EnsureFuture_runloop]"
    by (auto simp: start_def split: sum.splits)
  moreover from change_stage_trace [OF c] have "filter (\<lambda>a. a = EnsureFuture_runloop) tr1 = []"
    by (induction tr1) auto
  ultimately show ?thesis by simp
qed

lemma start_ex_timer:
  "start ex_env 1000 ex_timer
     = (Inr (), ex_running,
        [Send 1 (stage_notification ex_role False (ex_stage ''Work'' 25) (ex_stage ''Work'' 25)),
         AddReaction 0, EnsureFuture_runloop])"
  by (simp add: ex_running_eq)
     (simp add: start_def ex_timer_eq change_stage_def ex_env_def ex_stages_def
      py_index_def ex_stage_def)

lemma start_ex_running:
  "start ex_env 1001 ex_running
     = (Inr (), ex_running\<lparr> current_stage_start := Some 1001 \<rparr>,
        [Send 1 (stage_notification ex_role False (ex_stage ''Work'' 25) (ex_stage ''Work'' 25)),
         AddReaction 0, EnsureFuture_runloop])"
  by (simp add: start_def ex_running_eq ex_timer_eq change_stage_def ex_env_def ex_stages_def
      py_index_def ex_stage_def)

text \<open>
  A number with at most 53 significant bits and an exponent in range is a double:
  \<open>to_double\<close> returns it unchanged.
\<close>

lemma round_half_even_int: "round_half_even (real_of_int m) = m"
  by (simp add: round_half_even_def)

lemma to_double_exact:
  fixes m k :: int
  assumes x: "x = real_of_int m * 2 powr real_of_int (k - 52)"
    and lo: "2 powr real_of_int k \<le> \<bar>x\<bar>" and hi: "\<bar>x\<bar> < 2 powr real_of_int (k + 1)"
    and k: "- 1022 \<le> k" "k < 1024"
  shows "to_double x = Inr x"
proof -
  define u where "u = 2 powr real_of_int (k - 52)"
  have pos: "0 < \<bar>x\<bar>" using lo by (smt (verit) powr_gt_zero)
  then have x0: "x \<noteq> 0" by simp
  have fl: "\<lfloor>log 2 \<bar>x\<bar>\<rfloor> = k"
    using floor_log_eq_powr_iff [of "\<bar>x\<bar>" 2 k] pos lo hi by simp
  have e: "max \<lfloor>log 2 \<bar>x\<bar>\<rfloor> (- 1022) = k" using fl k(1) by simp
  have upos: "0 < u" by (simp add: u_def)
  have xu: "x = real_of_int m * u" using x by (simp add: u_def)
  have q: "x / u = real_of_int m" using xu upos by simp
  have y: "u * real_of_int m = x" using xu by simp
  have "2 powr real_of_int (k + 1) \<le> (2::real) powr 1024"
    by (rule powr_mono) (use k(2) in simp_all)
  with hi have fin: "\<not> 2 powr 1024 \<le> \<bar>x\<bar>" by simp
  show ?thesis
    unfolding to_double_def Let_def e u_def [symmetric] q round_half_even_int y
    using x0 fin by simp
qed

lemma to_double_examples:
  "to_double 1001 = Inr 1001"
  "to_double 1500 = Inr 1500"
  "to_double (1 / 2) = Inr (1 / 2)"
  "to_double (2999 / 2) = Inr (2999 / 2)"
proof -
  show "to_double 1001 = Inr 1001"
    by (rule to_double_exact [of _ "1001 * 2 ^ 43" 9]) (simp_all add: powr_minus)
  show "to_double 1500 = Inr 1500"
    by (rule to_double_exact [of _ "1500 * 2 ^ 42" 10]) (simp_all add: powr_minus)
  show "to_double (1 / 2) = Inr (1 / 2)"
    by (rule to_double_exact [of _ "2 ^ 52" "- 1"]) (simp_all add: powr_minus)
  show "to_double (2999 / 2) = Inr (2999 / 2)"
    by (rule to_double_exact [of _ "2999 * 2 ^ 41" 10]) (simp_all add: powr_minus)
qed

lemma remaining_now_ex: "remaining_now (2003 / 2) 25 1001 = Inr 1499"
  by (simp add: remaining_now_def and_then_def to_double_examples py_int_def)

lemma tick_ex:
  "runloop_iter ex_env (2003 / 2) 1001 1001 (ex_running\<lparr> current_stage_start := Some 1001 \<rparr>)
     = Some (Inr (), ex_running\<lparr> current_stage_start := Some 1001, remaining := Some 1499 \<rparr>,
             [EditChannelName 2 ''Work - 00:24:59''])"
  by (simp add: runloop_iter_def runloop_body_def ex_running_eq ex_timer_eq ex_stages_def ex_stage_def
      py_index_def remaining_now_ex update_clock_channel_def clock_period_def pretty_remaining_def
      fmt_02d_def str_nat.simps digit_char_def)

text \<open>
  A turn of a loop of a running timer ends that loop only when an exception leaves
  the body.
\<close>

lemma tick_keeps_loops:
  assumes "state (sched_timer s) = RUNNING"
    and "runloop_body env now_f now_cs now_uc (sched_timer s) = (Inr u, t', tr)"
  shows "sched_loops (sched_step env s (Tick now_f now_cs now_uc)) = sched_loops s"
  using assms by (simp add: runloop_iter_def)

text \<open>
  C8, as amended: \<open>start()\<close> does not look at the state. Every call that completes,
  also one on a timer that is already running, leaves the timer running and schedules
  exactly one more loop.
\<close>

theorem start_always_schedules:
  assumes "start env now (sched_timer s) = (Inr (), t', tr)"
  shows "sched_step env s (CallStart now) = \<lparr> sched_timer = t', sched_loops = sched_loops s + 1 \<rparr>
         \<and> state t' = RUNNING"
  using assms start_result [OF assms] by simp

text \<open>The theorem at the running example timer with its one loop: afterwards there are two.\<close>

theorem start_always_schedules_witness:
  "state ex_running = RUNNING
   \<and> sched_step ex_env \<lparr> sched_timer = ex_running, sched_loops = 1 \<rparr> (CallStart 1001)
       = \<lparr> sched_timer = ex_running\<lparr> current_stage_start := Some 1001 \<rparr>, sched_loops = 2 \<rparr>"
proof -
  have "start ex_env 1001 (sched_timer \<lparr> sched_timer = ex_running, sched_loops = 1 \<rparr>)
          = (Inr (), ex_running\<lparr> current_stage_start := Some 1001 \<rparr>,
             [Send 1 (stage_notification ex_role False (ex_stage ''Work'' 25) (ex_stage ''Work'' 25)),
              AddReaction 0, EnsureFuture_runloop])"
    by (simp add: start_ex_running)
  from start_always_schedules [OF this] show ?thesis by (simp add: ex_running_eq)
qed

text \<open>
  C8 as stated fails: \<open>start()\<close> at 1000 on the example timer gives a running timer with
  one loop, \<open>start()\<close> again at 1001 a second loop, and after a turn of a loop at 1001.5
  there are still two.
\<close>

theorem start_twice_two_loops:
  "sched_run ex_env \<lparr> sched_timer = ex_timer, sched_loops = 0 \<rparr> [CallStart 1000]
     = \<lparr> sched_timer = ex_running, sched_loops = 1 \<rparr>
   \<and> state ex_running = RUNNING
   \<and> sched_loops (sched_run ex_env \<lparr> sched_timer = ex_timer, sched_loops = 0 \<rparr>
        [CallStart 1000, CallStart 1001]) = 2
   \<and> sched_loops (sched_run ex_env \<lparr> sched_timer = ex_timer, sched_loops = 0 \<rparr>
        [CallStart 1000, CallStart 1001, Tick (2003 / 2) 1001 1001]) = 2"
proof -
  have 1: "sched_step ex_env \<lparr> sched_timer = ex_timer, sched_loops = 0 \<rparr> (CallStart 1000)
             = \<lparr> sched_timer = ex_running, sched_loops = 1 \<rparr>"
    by (simp add: start_ex_timer)
  have 2: "sched_step ex_env \<lparr> sched_timer = ex_running, sched_loops = 1 \<rparr> (CallStart 1001)
             = \<lparr> sched_timer = ex_running\<lparr> current_stage_start := Some 1001 \<rparr>, sched_loops = 2 \<rparr>"
    by (simp add: start_ex_running)
  have 3: "sched_step ex_env
             \<lparr> sched_timer = ex_running\<lparr> current_stage_start := Some 1001 \<rparr>, sched_loops = 2 \<rparr>
             (Tick (2003 / 2) 1001 1001)
             = \<lparr> sched_timer = ex_running\<lparr> current_stage_start := Some 1001, remaining := Some 1499 \<rparr>,
                 sched_loops = 2 \<rparr>"
    by (simp add: tick_ex)
  have 4: "state ex_running = RUNNING" by (simp add: ex_running_eq)
  show ?thesis
    by (simp only: sched_run_def foldl.simps 1 2 3 4 Sched.simps)
qed

end
